theory Spec2Isabelle
  imports Complex_Main "HOL-Library.AList"
begin

section \<open>The bank ETL script \<^verbatim>\<open>ETL_Project_Banks.py\<close>\<close>

text \<open>
  The script extracts a table of banks from a web page, converts the market
  capitalisation into three currencies and stores the table in a CSV file and in a
  database table. The embedding follows the script function by function. Everything the
  script does outside its own code (the HTTP request, the exchange-rate file, the two
  sinks, the SQL engine) is a field of an environment record, so that each failure the
  script can meet is a branch of the model.

  Numbers: the script computes with binary floating point. The model computes with exact
  rationals, extended by the two infinities and NaN; rounding of a product to the nearest
  double and overflow are outside the model.
  Strings are lists of 8-bit characters.
\<close>

subsection \<open>Exceptions\<close>

datatype error =
    ConnectionError          \<comment> \<open>\<^verbatim>\<open>requests.get\<close> could not retrieve the page\<close>
  | IndexError               \<comment> \<open>list index out of range\<close>
  | KeyError string          \<comment> \<open>missing dictionary key or data-frame column\<close>
  | ValueError string        \<comment> \<open>\<^verbatim>\<open>could not convert string to float\<close>\<close>
  | TypeError                \<comment> \<open>a product of a rate with a cell that is no number\<close>
  | FileNotFoundError        \<comment> \<open>\<^verbatim>\<open>exchange_rate.csv\<close> cannot be read\<close>
  | OSError                  \<comment> \<open>the CSV file cannot be written\<close>
  | DatabaseError            \<comment> \<open>raised by sqlite3 or by pandas' SQL layer\<close>

subsection \<open>Strings and floats of Python\<close>

text \<open>\<^verbatim>\<open>str.isspace\<close> on the characters below 128.\<close>

definition py_isspace :: "char \<Rightarrow> bool" where
  "py_isspace c \<longleftrightarrow> (let n = (of_char c :: nat) in (9 \<le> n \<and> n \<le> 13) \<or> (28 \<le> n \<and> n \<le> 32))"

definition strip :: "string \<Rightarrow> string" where
  "strip s = rev (dropWhile py_isspace (rev (dropWhile py_isspace s)))"

datatype pyfloat = Fin rat | Inf bool | NaN
  \<comment> \<open>\<open>Inf True\<close> is \<open>+inf\<close>, \<open>Inf False\<close> is \<open>-inf\<close>\<close>

definition is_digit :: "char \<Rightarrow> bool" where
  "is_digit c \<longleftrightarrow> (let n = (of_char c :: nat) in 48 \<le> n \<and> n \<le> 57)"

definition to_lower :: "char \<Rightarrow> char" where
  "to_lower c = (let n = (of_char c :: nat) in if 65 \<le> n \<and> n \<le> 90 then char_of (n + 32) else c)"

text \<open>
  A run of digits in which single underscores may stand between two digits
  (\<^verbatim>\<open>digitpart\<close> of the grammar of \<^verbatim>\<open>float()\<close>).
\<close>

fun digitpart_tail :: "string \<Rightarrow> bool" where
  "digitpart_tail [] = True"
| "digitpart_tail (c # cs) =
     (if is_digit c then digitpart_tail cs
      else if c = CHR ''_'' then (case cs of [] \<Rightarrow> False | d # ds \<Rightarrow> is_digit d \<and> digitpart_tail ds)
      else False)"

definition digitpart :: "string \<Rightarrow> bool" where
  "digitpart s = (case s of [] \<Rightarrow> False | c # cs \<Rightarrow> is_digit c \<and> digitpart_tail cs)"

definition digits_value :: "string \<Rightarrow> nat" where
  "digits_value s = foldl (\<lambda>n c. 10 * n + (of_char c - 48)) 0 (filter is_digit s)"

definition split_at :: "(char \<Rightarrow> bool) \<Rightarrow> string \<Rightarrow> string \<times> string option" where
  "split_at p s =
     (case dropWhile (\<lambda>c. \<not> p c) s of
        [] \<Rightarrow> (s, None)
      | _ # rest \<Rightarrow> (takeWhile (\<lambda>c. \<not> p c) s, Some rest))"

definition take_sign :: "string \<Rightarrow> bool \<times> string" where
  "take_sign s =
     (case s of
        c # cs \<Rightarrow> if c = CHR ''-'' then (False, cs) else if c = CHR ''+'' then (True, cs) else (True, s)
      | [] \<Rightarrow> (True, s))"

text \<open>The exponent after \<^verbatim>\<open>e\<close>: an optional sign and a digit part.\<close>

definition parse_exponent :: "string option \<Rightarrow> int option" where
  "parse_exponent ex =
     (case ex of
        None \<Rightarrow> Some 0
      | Some t \<Rightarrow>
          (let (pos, ds) = take_sign t in
           if digitpart ds then Some (if pos then int (digits_value ds) else - int (digits_value ds))
           else None))"

text \<open>The mantissa: digits, an optional point, digits; at least one digit.\<close>

definition parse_mantissa :: "string \<Rightarrow> rat option" where
  "parse_mantissa m =
     (case split_at (\<lambda>c. c = CHR ''.'') m of
        (ip, None) \<Rightarrow> if digitpart ip then Some (of_nat (digits_value ip)) else None
      | (ip, Some fp) \<Rightarrow>
          if (ip = [] \<or> digitpart ip) \<and> (fp = [] \<or> digitpart fp) \<and> \<not> (ip = [] \<and> fp = [])
          then Some (of_nat (digits_value (ip @ fp)) / 10 ^ length (filter is_digit fp))
          else None)"

definition scale10 :: "rat \<Rightarrow> int \<Rightarrow> rat" where
  "scale10 q e = (if 0 \<le> e then q * 10 ^ nat e else q / 10 ^ nat (- e))"

text \<open>
  \<^verbatim>\<open>float(s)\<close> on a string: \<open>None\<close> is the \<^verbatim>\<open>ValueError\<close>. Surrounding whitespace is
  dropped, then a sign is read, then one of \<^verbatim>\<open>inf\<close>, \<^verbatim>\<open>infinity\<close>, \<^verbatim>\<open>nan\<close> in any
  case or a decimal numeral with an optional exponent.
\<close>

definition py_float :: "string \<Rightarrow> pyfloat option" where
  "py_float s =
     (let (pos, body) = take_sign (strip s);
          low = map to_lower body
      in if low = ''inf'' \<or> low = ''infinity'' then Some (Inf pos)
         else if low = ''nan'' then Some NaN
         else
           (case split_at (\<lambda>c. c = CHR ''e'' \<or> c = CHR ''E'') body of
              (m, ex) \<Rightarrow>
                (case parse_mantissa m of
                   None \<Rightarrow> None
                 | Some q \<Rightarrow>
                     (case parse_exponent ex of
                        None \<Rightarrow> None
                      | Some e \<Rightarrow> Some (Fin (scale10 (if pos then q else - q) e))))))"

text \<open>The product of a float and a finite rate.\<close>

fun fmul :: "pyfloat \<Rightarrow> rat \<Rightarrow> pyfloat" where
  "fmul (Fin x) r = Fin (x * r)"
| "fmul (Inf pos) r = (if r = 0 then NaN else Inf (pos = (0 < r)))"
| "fmul NaN r = NaN"

text \<open>\<^verbatim>\<open>np.rint\<close>: the nearest integer, a tie going to the even one.\<close>

definition rint :: "rat \<Rightarrow> int" where
  "rint q =
     (let f = \<lfloor>q\<rfloor>; d = q - of_int f
      in if d < 1 / 2 then f else if 1 / 2 < d then f + 1 else if even f then f else f + 1)"

text \<open>\<^verbatim>\<open>np.round(x, decimals)\<close> for \<open>decimals \<ge> 0\<close>: scale, \<^verbatim>\<open>rint\<close>, scale back.\<close>

fun np_round :: "pyfloat \<Rightarrow> nat \<Rightarrow> pyfloat" where
  "np_round (Fin x) d = Fin (of_int (rint (x * 10 ^ d)) / 10 ^ d)"
| "np_round (Inf pos) d = Inf pos"
| "np_round NaN d = NaN"

subsection \<open>Data frames\<close>

text \<open>
  A cell holds \<^verbatim>\<open>None\<close>, a string or a float. A data frame is the ordered list of its
  columns; the index is \<open>0, 1, \<dots>\<close> throughout the script
  (\<^verbatim>\<open>ignore_index=True\<close>) and is not stored.
\<close>

datatype cell = PyNone | Str string | Float pyfloat

type_synonym dataframe = "(string \<times> cell list) list"

definition nrows :: "dataframe \<Rightarrow> nat" where
  "nrows df = (case df of [] \<Rightarrow> 0 | (c, vs) # _ \<Rightarrow> length vs)"

definition df_columns :: "dataframe \<Rightarrow> string list" where
  "df_columns df = map fst df"

definition df_rows :: "dataframe \<Rightarrow> cell list list" where
  "df_rows df = transpose (map snd df)"

text \<open>\<^verbatim>\<open>df[c]\<close> and \<^verbatim>\<open>df[c] = vs\<close>.\<close>

definition get_column :: "dataframe \<Rightarrow> string \<Rightarrow> error + cell list" where
  "get_column df c = (case map_of df c of None \<Rightarrow> Inl (KeyError c) | Some vs \<Rightarrow> Inr vs)"

definition set_column :: "dataframe \<Rightarrow> string \<Rightarrow> cell list \<Rightarrow> dataframe" where
  "set_column df c vs = AList.update c vs df"

text \<open>
  \<^verbatim>\<open>pd.concat([df, df1], ignore_index=True)\<close> for a one-row frame \<open>df1\<close> made from a
  dictionary: every column of \<open>df\<close> gets the row's value (NaN when the dictionary has
  no such key), and the keys that \<open>df\<close> lacks become new columns after the old ones.
\<close>

definition concat_row :: "dataframe \<Rightarrow> (string \<times> cell) list \<Rightarrow> dataframe" where
  "concat_row df d =
     map (\<lambda>(c, vs). (c, vs @ [case map_of d c of None \<Rightarrow> Float NaN | Some v \<Rightarrow> v])) df
     @ map (\<lambda>(c, v). (c, replicate (nrows df) (Float NaN) @ [v]))
         (filter (\<lambda>(c, v). c \<notin> set (map fst df)) d)"

subsection \<open>The page\<close>

text \<open>
  The parsed page as \<^verbatim>\<open>find_all\<close> sees it: the list of table bodies, each the list
  of its rows, each row the list of its \<^verbatim>\<open>td\<close> cells. A cell has its text and the list
  of its links, a link being its \<^verbatim>\<open>title\<close> attribute (\<open>None\<close> when it has none).
\<close>

record td =
  td_text :: string
  td_links :: "string option list"

type_synonym tr = "td list"
type_synonym tbody = "tr list"
type_synonym page = "tbody list"

subsection \<open>Known entities\<close>

definition url :: string where
  "url = ''https://web.archive.org/web/20230908091635/https://en.wikipedia.org/wiki/List_of_largest_banks''"

definition table_attribs :: "string list" where
  "table_attribs = [''Name'', ''MC_USD_Billion'']"

definition csv_path :: string where
  "csv_path = ''Largest_banks_data.csv''"

definition table_name :: string where
  "table_name = ''Largest_banks''"

definition output_path :: string where
  "output_path = ''./Largest_banks_data.csv''"

subsection \<open>extract\<close>

text \<open>
  The loop over \<^verbatim>\<open>rows[1:]\<close>. A row with more than one cell is read in the order of
  the source: the links of the second cell, the second of them, the third cell.
\<close>

fun extract_rows :: "tr list \<Rightarrow> dataframe \<Rightarrow> error + dataframe" where
  "extract_rows [] df = Inr df"
| "extract_rows (col # rows) df =
     (if length col > 1 then
        (let link1 = td_links (col ! 1) in
         if length link1 \<le> 1 then Inl IndexError
         else
           (let link2 = link1 ! 1 in
            if length col \<le> 2 then Inl IndexError
            else
              (let col2 = col ! 2;
                   mc_usd_billion = strip (td_text col2);
                   Bank_Name = (case link2 of None \<Rightarrow> PyNone | Some t \<Rightarrow> Str t);
                   data_dict = [(''Name'', Bank_Name), (''MC_USD_Billion'', Str mc_usd_billion)]
               in extract_rows rows (concat_row df data_dict))))
      else extract_rows rows df)"

text \<open>The function \<^verbatim>\<open>extract\<close> (the name alone is a command of Isabelle).\<close>

definition extract_df :: "(string \<Rightarrow> error + page) \<Rightarrow> string \<Rightarrow> string list \<Rightarrow> error + dataframe" where
  "extract_df web u attribs =
     (case web u of
        Inl e \<Rightarrow> Inl e
      | Inr tables \<Rightarrow>
          (case tables of
             [] \<Rightarrow> Inl IndexError
           | t # _ \<Rightarrow> extract_rows (drop 1 t) (map (\<lambda>c. (c, [])) attribs)))"

subsection \<open>State, environment and programs\<close>

text \<open>
  The state holds what the script can change: the data frames in memory, addressed by
  reference, the lines of \<^verbatim>\<open>code_log.txt\<close> (the message of each line; the time stamp
  is left out), the CSV files by path, the tables of \<^verbatim>\<open>Banks.db\<close> by name, whether the
  connection to the database is open, and what was printed.
\<close>

record table =
  tbl_columns :: "string list"
  tbl_rows :: "cell list list"

record csv =
  csv_header :: "string list"
  csv_rows :: "(nat \<times> cell list) list"   \<comment> \<open>the index and the values of each line\<close>

datatype out = Text string | Frame table

record state =
  heap :: "nat \<Rightarrow> dataframe"
  next_ref :: nat
  code_log :: "string list"
  files :: "string \<Rightarrow> csv option"
  database :: "string \<Rightarrow> table option"
  connection_open :: bool
  stdout :: "out list"

text \<open>
  The environment holds what the script meets: the page behind each URL or the failure
  of the request, the rows of \<^verbatim>\<open>exchange_rate.csv\<close> (\<open>None\<close> when the file cannot
  be read), and for each sink whether the write fails, with the error raised and what
  the failed write leaves behind. \<open>read_sql\<close> is the SQL engine.
\<close>

record env =
  web :: "string \<Rightarrow> error + page"
  exchange_rate_csv :: "(string \<times> rat) list option"
  to_csv_fault :: "(error \<times> csv option) option"
  connect_fault :: "error option"
  to_sql_fault :: "(error \<times> table option) option"
  read_sql :: "string \<Rightarrow> (string \<Rightarrow> table option) \<Rightarrow> error + table"

type_synonym 'a prog = "state \<Rightarrow> (error + 'a) \<times> state"

text \<open>One statement after another: an exception ends the sequence.\<close>

definition seq :: "'a prog \<Rightarrow> ('a \<Rightarrow> 'b prog) \<Rightarrow> 'b prog" where
  "seq m f s = (case m s of (Inl e, s') \<Rightarrow> (Inl e, s') | (Inr x, s') \<Rightarrow> f x s')"

definition lift :: "error + 'a \<Rightarrow> 'a prog" where
  "lift r s = (r, s)"

text \<open>A freshly built frame becomes an object of its own.\<close>

definition new_object :: "dataframe \<Rightarrow> nat prog" where
  "new_object df s =
     (Inr (next_ref s), s\<lparr>heap := (heap s)(next_ref s := df), next_ref := Suc (next_ref s)\<rparr>)"

definition read_col :: "nat \<Rightarrow> string \<Rightarrow> cell list prog" where
  "read_col df c s = (get_column (heap s df) c, s)"

definition write_col :: "nat \<Rightarrow> string \<Rightarrow> cell list \<Rightarrow> unit prog" where
  "write_col df c vs s = (Inr (), s\<lparr>heap := (heap s)(df := set_column (heap s df) c vs)\<rparr>)"

subsection \<open>log_progress\<close>

definition log_progress :: "string \<Rightarrow> unit prog" where
  "log_progress message s = (Inr (), s\<lparr>code_log := code_log s @ [message]\<rparr>)"

subsection \<open>transform\<close>

text \<open>\<^verbatim>\<open>astype(float)\<close> on a column of objects; \<^verbatim>\<open>None\<close> becomes NaN.\<close>

fun to_float :: "cell \<Rightarrow> error + pyfloat" where
  "to_float (Str t) = (case py_float t of None \<Rightarrow> Inl (ValueError t) | Some x \<Rightarrow> Inr x)"
| "to_float (Float x) = Inr x"
| "to_float PyNone = Inr NaN"

fun astype_float :: "cell list \<Rightarrow> error + cell list" where
  "astype_float [] = Inr []"
| "astype_float (c # cs) =
     (case to_float c of
        Inl e \<Rightarrow> Inl e
      | Inr x \<Rightarrow> (case astype_float cs of Inl e \<Rightarrow> Inl e | Inr xs \<Rightarrow> Inr (Float x # xs)))"

text \<open>
  \<^verbatim>\<open>pd.read_csv('exchange_rate.csv')\<close> and the dictionary made of its rows; of two rows
  with one currency the later one stays.
\<close>

definition read_csv :: "env \<Rightarrow> (string \<times> rat) list prog" where
  "read_csv env s =
     (case exchange_rate_csv env of None \<Rightarrow> (Inl FileNotFoundError, s) | Some exr_df \<Rightarrow> (Inr exr_df, s))"

definition to_dict :: "(string \<times> rat) list \<Rightarrow> string \<Rightarrow> rat option" where
  "to_dict exr_df = map_of (rev exr_df)"

text \<open>
  The comprehension \<^verbatim>\<open>[np.round(x*exchange_rate[code],2) for x in column]\<close>: the rate
  is looked up once for each element, so an empty column never looks it up.
\<close>

fun convert_column :: "(string \<Rightarrow> rat option) \<Rightarrow> string \<Rightarrow> cell list \<Rightarrow> error + cell list" where
  "convert_column exchange_rate code [] = Inr []"
| "convert_column exchange_rate code (x # xs) =
     (case exchange_rate code of
        None \<Rightarrow> Inl (KeyError code)
      | Some rate \<Rightarrow>
          (case x of
             Float v \<Rightarrow>
               (case convert_column exchange_rate code xs of
                  Inl e \<Rightarrow> Inl e
                | Inr ys \<Rightarrow> Inr (Float (np_round (fmul v rate) 2) # ys))
           | _ \<Rightarrow> Inl TypeError))"

text \<open>
  The frame is reached through its reference \<open>df\<close>; each assignment to a column changes
  the object itself. The parameter \<open>path\<close> is not used, as in the source.
\<close>

definition transform :: "env \<Rightarrow> nat \<Rightarrow> string \<Rightarrow> nat prog" where
  "transform env df path =
     seq (read_col df ''MC_USD_Billion'') (\<lambda>col.
     seq (lift (astype_float col)) (\<lambda>usd.
     seq (write_col df ''MC_USD_Billion'' usd) (\<lambda>_.
     seq (read_csv env) (\<lambda>exr_df.
     seq (read_col df ''MC_USD_Billion'') (\<lambda>col.
     seq (lift (convert_column (to_dict exr_df) ''GBP'' col)) (\<lambda>gbp.
     seq (write_col df ''MC_GBP_Billion'' gbp) (\<lambda>_.
     seq (read_col df ''MC_USD_Billion'') (\<lambda>col.
     seq (lift (convert_column (to_dict exr_df) ''EUR'' col)) (\<lambda>eur.
     seq (write_col df ''MC_EUR_Billion'' eur) (\<lambda>_.
     seq (read_col df ''MC_USD_Billion'') (\<lambda>col.
     seq (lift (convert_column (to_dict exr_df) ''INR'' col)) (\<lambda>inr.
     seq (write_col df ''MC_INR_Billion'' inr) (\<lambda>_.
     lift (Inr df))))))))))))))"

subsection \<open>load_to_csv, load_to_db, run_query\<close>

text \<open>\<^verbatim>\<open>df.to_csv(output_path)\<close> writes the header and each row after its index.\<close>

definition load_to_csv :: "env \<Rightarrow> nat \<Rightarrow> string \<Rightarrow> unit prog" where
  "load_to_csv env df path s =
     (case to_csv_fault env of
        Some (e, left) \<Rightarrow> (Inl e, s\<lparr>files := (files s)(path := left)\<rparr>)
      | None \<Rightarrow>
          (Inr (), s\<lparr>files := (files s)(path :=
             Some \<lparr>csv_header = df_columns (heap s df),
                   csv_rows = enumerate 0 (df_rows (heap s df))\<rparr>)\<rparr>))"

text \<open>\<^verbatim>\<open>sqlite3.connect('Banks.db')\<close>; the state has this one connection.\<close>

definition connect :: "env \<Rightarrow> unit prog" where
  "connect env s =
     (case connect_fault env of
        Some e \<Rightarrow> (Inl e, s)
      | None \<Rightarrow> (Inr (), s\<lparr>connection_open := True\<rparr>))"

definition close :: "unit prog" where
  "close s = (Inr (), s\<lparr>connection_open := False\<rparr>)"

text \<open>
  \<^verbatim>\<open>df.to_sql(table_name, sql_connection, if_exists='replace', index=False)\<close>: a table
  of that name is dropped and made anew from the frame, without the index.
\<close>

definition load_to_db :: "env \<Rightarrow> nat \<Rightarrow> string \<Rightarrow> unit prog" where
  "load_to_db env df name s =
     (case to_sql_fault env of
        Some (e, left) \<Rightarrow> (Inl e, s\<lparr>database := (database s)(name := left)\<rparr>)
      | None \<Rightarrow>
          (Inr (), s\<lparr>database := (database s)(name :=
             Some \<lparr>tbl_columns = df_columns (heap s df), tbl_rows = df_rows (heap s df)\<rparr>)\<rparr>))"

text \<open>What a call hands back to its caller: \<^verbatim>\<open>None\<close> or a frame.\<close>

datatype returned = ReturnsNone | ReturnsFrame table

definition print :: "out \<Rightarrow> unit prog" where
  "print x s = (Inr (), s\<lparr>stdout := stdout s @ [x]\<rparr>)"

definition run_query :: "env \<Rightarrow> string \<Rightarrow> returned prog" where
  "run_query env query_statement =
     seq (print (Text query_statement)) (\<lambda>_.
     seq (\<lambda>s. (read_sql env query_statement (database s), s)) (\<lambda>query_output.
     seq (print (Frame query_output)) (\<lambda>_.
     lift (Inr ReturnsNone))))"

subsection \<open>The script\<close>

definition milestones :: "string list" where
  "milestones =
     [''Preliminaries Complete. Initiating ETL process'',
      ''Data extraction complete. Initiating Transformation process'',
      ''Data transformation complete. Initiating Loading process'',
      ''Data saved to CSV file'',
      ''SQL Connection initiated.'',
      ''Data loaded to Database as a table, Executing queries'',
      ''Process Complete'',
      ''Server Connection Closed'']"

definition run :: "env \<Rightarrow> unit prog" where
  "run env =
     seq (log_progress (milestones ! 0)) (\<lambda>_.
     seq (lift (extract_df (web env) url table_attribs)) (\<lambda>frame.
     seq (new_object frame) (\<lambda>df.
     seq (log_progress (milestones ! 1)) (\<lambda>_.
     seq (transform env df csv_path) (\<lambda>df.
     seq (log_progress (milestones ! 2)) (\<lambda>_.
     seq (load_to_csv env df output_path) (\<lambda>_.
     seq (log_progress (milestones ! 3)) (\<lambda>_.
     seq (connect env) (\<lambda>_.
     seq (log_progress (milestones ! 4)) (\<lambda>_.
     seq (load_to_db env df table_name) (\<lambda>_.
     seq (log_progress (milestones ! 5)) (\<lambda>_.
     seq (run_query env ''SELECT * FROM Largest_banks'') (\<lambda>_.
     seq (run_query env ''SELECT AVG(MC_GBP_Billion) FROM Largest_banks'') (\<lambda>_.
     seq (run_query env ''SELECT Name from Largest_banks LIMIT 5'') (\<lambda>_.
     seq (log_progress (milestones ! 6)) (\<lambda>_.
     seq close (\<lambda>_.
     log_progress (milestones ! 7))))))))))))))))))"

subsection \<open>A page, a rate file and a start state\<close>

text \<open>
  A page with one table: a header row without \<^verbatim>\<open>td\<close> cells, two banks and a footer
  row of one cell. The SQL engine of the example answers every query with the whole
  table \<^verbatim>\<open>Largest_banks\<close>.
\<close>

definition example_table :: tbody where
  "example_table =
      [[],
       [\<lparr>td_text = ''1'', td_links = []\<rparr>,
        \<lparr>td_text = ''Bank A'', td_links = [Some ''Flag'', Some ''Bank A'']\<rparr>,
        \<lparr>td_text = ''100.00 '', td_links = []\<rparr>],
       [\<lparr>td_text = ''2'', td_links = []\<rparr>,
        \<lparr>td_text = ''Bank B'', td_links = [Some ''Flag'', Some ''Bank B'']\<rparr>,
        \<lparr>td_text = ''50'', td_links = []\<rparr>],
       [\<lparr>td_text = ''Total'', td_links = []\<rparr>]]"

definition example_page :: page where
  "example_page = [example_table]"


definition example_rates :: "(string \<times> rat) list" where
  "example_rates = [(''EUR'', 93 / 100), (''GBP'', 8 / 10), (''INR'', 83)]"

definition example_env :: env where
  "example_env =
     \<lparr>web = (\<lambda>u. Inr example_page),
      exchange_rate_csv = Some example_rates,
      to_csv_fault = None,
      connect_fault = None,
      to_sql_fault = None,
      read_sql = (\<lambda>q db. case db ''Largest_banks'' of None \<Rightarrow> Inl DatabaseError | Some t \<Rightarrow> Inr t)\<rparr>"

definition initial_state :: state where
  "initial_state =
     \<lparr>heap = (\<lambda>_. []), next_ref = 0, code_log = [], files = (\<lambda>_. None),
      database = (\<lambda>_. None), connection_open = False, stdout = []\<rparr>"

text \<open>The state in which reference \<open>0\<close> holds the frame \<open>df\<close>.\<close>

definition state_with :: "dataframe \<Rightarrow> state" where
  "state_with df = initial_state\<lparr>heap := (heap initial_state)(0 := df), next_ref := 1\<rparr>"

definition raw_frame :: dataframe where
  "raw_frame = [(''Name'', [Str ''Bank A'', Str ''Bank B'']), (''MC_USD_Billion'', [Str ''100.00 '', Str ''50''])]"

definition dollar_frame :: dataframe where
  "dollar_frame = [(''Name'', [Str ''Bank A'', Str ''Bank B'']), (''MC_USD_Billion'', [Str ''$100.00 '', Str ''50''])]"

definition enriched_frame :: dataframe where
  "enriched_frame =
     [(''Name'', [Str ''Bank A'', Str ''Bank B'']),
      (''MC_USD_Billion'', [Float (Fin 100), Float (Fin 50)]),
      (''MC_GBP_Billion'', [Float (Fin 80), Float (Fin 40)]),
      (''MC_EUR_Billion'', [Float (Fin 93), Float (Fin (93 / 2))]),
      (''MC_INR_Billion'', [Float (Fin 8300), Float (Fin 4150)])]"

definition old_table :: table where
  "old_table = \<lparr>tbl_columns = [''Name''], tbl_rows = [[Str ''X''], [Str ''Y''], [Str ''Z'']]\<rparr>"

text \<open>A state whose database holds a table of three rows from an earlier run.\<close>

definition loaded_state :: state where
  "loaded_state =
     (state_with enriched_frame)\<lparr>database := (database initial_state)(''Largest_banks'' := Some old_table)\<rparr>"

subsection \<open>What it means to be converted\<close>





subsection \<open>Other runs: a failing query, a rate file without INR, a table without records\<close>

text \<open>
  \<^term>\<open>extracted_frame\<close> is what \<^verbatim>\<open>extract\<close> makes of the example page. The other
  environments differ from the example in one point each: queries that fail, a rate
  file with no line for INR, and, with that rate file, a page whose table has a header
  row only.
\<close>

definition extracted_frame :: dataframe where
  "extracted_frame = [(''Name'', [Str ''Bank A'', Str ''Bank B'']), (''MC_USD_Billion'', [Str ''100.00'', Str ''50''])]"

definition broken_env :: env where
  "broken_env = example_env\<lparr>read_sql := (\<lambda>q db. Inl DatabaseError)\<rparr>"

definition no_inr_env :: env where
  "no_inr_env = example_env\<lparr>exchange_rate_csv := Some [(''EUR'', 93 / 100), (''GBP'', 8 / 10)]\<rparr>"

definition header_only_env :: env where
  "header_only_env = no_inr_env\<lparr>web := (\<lambda>u. Inr [[[]]])\<rparr>"

definition empty_enriched :: dataframe where
  "empty_enriched =
     [(''Name'', []), (''MC_USD_Billion'', []), (''MC_GBP_Billion'', []),
      (''MC_EUR_Billion'', []), (''MC_INR_Billion'', [])]"

section \<open>Properties\<close>

subsection \<open>Columns and the steps of transform\<close>

lemma astype_float_Float: "astype_float col = Inr usd \<Longrightarrow> \<exists>fs. usd = map Float fs \<and> length fs = length col"
proof (induction col arbitrary: usd)
  case Nil
  then show ?case by simp
next
  case (Cons c cs)
  from Cons.prems obtain x xs where x: "to_float c = Inr x" and xs: "astype_float cs = Inr xs"
    and usd: "usd = Float x # xs"
    by (auto split: sum.splits)
  from Cons.IH [OF xs] obtain fs where "xs = map Float fs" "length fs = length cs" by blast
  with usd have "usd = map Float (x # fs) \<and> length (x # fs) = length (c # cs)" by simp
  then show ?case by blast
qed

lemma convert_column_Float:
  "convert_column ex code (map Float fs) =
     (if fs = [] then Inr []
      else case ex code of
             None \<Rightarrow> Inl (KeyError code)
           | Some rate \<Rightarrow> Inr (map (\<lambda>v. Float (np_round (fmul v rate) 2)) fs))"
  by (induction fs) (auto split: option.splits)

lemma get_set_column_same: "get_column (set_column f c vs) c = Inr vs"
  by (simp add: get_column_def set_column_def update_conv')

lemma get_set_column_other: "c \<noteq> d \<Longrightarrow> get_column (set_column f d vs) c = get_column f c"
  by (simp add: get_column_def set_column_def update_conv')

lemma transform_Inr:
  assumes "transform env df path s = (Inr r, s')"
  shows "\<exists>col fs exr gbp eur inr.
           get_column (heap s df) ''MC_USD_Billion'' = Inr col \<and>
           astype_float col = Inr (map Float fs) \<and> length fs = length col \<and>
           exchange_rate_csv env = Some exr \<and>
           convert_column (to_dict exr) ''GBP'' (map Float fs) = Inr gbp \<and>
           convert_column (to_dict exr) ''EUR'' (map Float fs) = Inr eur \<and>
           convert_column (to_dict exr) ''INR'' (map Float fs) = Inr inr \<and>
           r = df \<and>
           s' = s\<lparr>heap := (heap s)(df :=
                  set_column (set_column (set_column (set_column (heap s df)
                    ''MC_USD_Billion'' (map Float fs)) ''MC_GBP_Billion'' gbp)
                    ''MC_EUR_Billion'' eur) ''MC_INR_Billion'' inr)\<rparr>"
  using assms
  apply (simp add: transform_def seq_def read_col_def lift_def write_col_def read_csv_def
      get_set_column_same get_set_column_other
      split: sum.splits option.splits)
  apply (auto dest!: astype_float_Float)
  done

lemma transform_frame:
  "transform env df path s = (res, s') \<Longrightarrow> \<exists>h. s' = s\<lparr>heap := h\<rparr>"
  apply (simp add: transform_def seq_def read_col_def lift_def write_col_def read_csv_def
      get_set_column_same get_set_column_other
      split: sum.splits option.splits)
  apply (auto intro: exI [where x = "heap s"])
  done


lemma run_query_eq:
  "run_query env q s =
     (case read_sql env q (database s) of
        Inl e \<Rightarrow> (Inl e, s\<lparr>stdout := stdout s @ [Text q]\<rparr>)
      | Inr t \<Rightarrow> (Inr ReturnsNone, s\<lparr>stdout := stdout s @ [Text q, Frame t]\<rparr>))"
  by (simp add: run_query_def seq_def print_def lift_def split: sum.splits)

lemma transform_ok:
  assumes col: "get_column (heap s df) ''MC_USD_Billion'' = Inr col"
    and usd: "astype_float col = Inr (map Float fs)"
    and exr: "exchange_rate_csv env = Some exr"
    and g: "to_dict exr ''GBP'' = Some g"
    and e: "to_dict exr ''EUR'' = Some e"
    and n: "to_dict exr ''INR'' = Some n"
  shows "transform env df path s =
           (Inr df, s\<lparr>heap := (heap s)(df :=
              set_column (set_column (set_column (set_column (heap s df)
                ''MC_USD_Billion'' (map Float fs))
                ''MC_GBP_Billion'' (map (\<lambda>v. Float (np_round (fmul v g) 2)) fs))
                ''MC_EUR_Billion'' (map (\<lambda>v. Float (np_round (fmul v e) 2)) fs))
                ''MC_INR_Billion'' (map (\<lambda>v. Float (np_round (fmul v n) 2)) fs))\<rparr>)"
  using assms
  by (simp add: transform_def seq_def read_col_def lift_def write_col_def read_csv_def
      get_set_column_same get_set_column_other convert_column_Float)

lemma transform_missing_rate:
  assumes col: "get_column (heap s df) ''MC_USD_Billion'' = Inr col"
    and usd: "astype_float col = Inr (map Float fs)"
    and ne: "fs \<noteq> []"
    and exr: "exchange_rate_csv env = Some exr"
    and miss: "to_dict exr ''GBP'' = None \<or> to_dict exr ''EUR'' = None \<or> to_dict exr ''INR'' = None"
  shows "\<exists>c h. c \<in> {''GBP'', ''EUR'', ''INR''} \<and> to_dict exr c = None \<and>
           transform env df path s = (Inl (KeyError c), s\<lparr>heap := h\<rparr>)"
proof (cases "to_dict exr ''GBP''")
  case None
  with col usd ne exr have "transform env df path s =
      (Inl (KeyError ''GBP''), s\<lparr>heap := (heap s)(df := set_column (heap s df) ''MC_USD_Billion'' (map Float fs))\<rparr>)"
    by (simp add: transform_def seq_def read_col_def lift_def write_col_def read_csv_def
        get_set_column_same get_set_column_other convert_column_Float)
  with None show ?thesis by blast
next
  case g: (Some g)
  show ?thesis
  proof (cases "to_dict exr ''EUR''")
    case None
    with col usd ne exr g have "\<exists>h. transform env df path s = (Inl (KeyError ''EUR''), s\<lparr>heap := h\<rparr>)"
      by (simp add: transform_def seq_def read_col_def lift_def write_col_def read_csv_def
          get_set_column_same get_set_column_other convert_column_Float)
        (rule exI, rule refl)
    with None show ?thesis by blast
  next
    case e: (Some e)
    with miss g have None: "to_dict exr ''INR'' = None" by simp
    with col usd ne exr g e have "\<exists>h. transform env df path s = (Inl (KeyError ''INR''), s\<lparr>heap := h\<rparr>)"
      by (simp add: transform_def seq_def read_col_def lift_def write_col_def read_csv_def
          get_set_column_same get_set_column_other convert_column_Float)
        (rule exI, rule refl)
    with None show ?thesis by blast
  qed
qed

subsection \<open>The example, evaluated\<close>

lemma py_float_examples:
  "py_float ''100.00 '' = Some (Fin 100)"
  "py_float ''50'' = Some (Fin 50)"
  "py_float ''$100.00 '' = None"
  "py_float ''n/a'' = None"
  by (simp_all add: py_float_def strip_def py_isspace_def take_sign_def to_lower_def split_at_def
      parse_mantissa_def parse_exponent_def digitpart_def is_digit_def digits_value_def scale10_def)


lemma transform_raw_frame:
  "transform example_env 0 path (state_with raw_frame) = (Inr 0, state_with enriched_frame)"
proof -
  have col: "get_column (heap (state_with raw_frame) 0) ''MC_USD_Billion'' = Inr [Str ''100.00 '', Str ''50'']"
    by (simp add: state_with_def raw_frame_def get_column_def)
  have usd: "astype_float [Str ''100.00 '', Str ''50''] = Inr (map Float [Fin 100, Fin 50])"
    by (simp add: py_float_examples)
  have exr: "exchange_rate_csv example_env = Some example_rates"
    by (simp add: example_env_def)
  have g: "to_dict example_rates ''GBP'' = Some (8 / 10)"
    and e: "to_dict example_rates ''EUR'' = Some (93 / 100)"
    and n: "to_dict example_rates ''INR'' = Some 83"
    by (simp_all add: to_dict_def example_rates_def)
  show ?thesis
    unfolding transform_ok [OF col usd exr g e n]
    by (simp add: rint_def state_with_def raw_frame_def enriched_frame_def
        set_column_def initial_state_def)
qed

lemma transform_dollar_frame:
  "fst (transform example_env 0 path (state_with dollar_frame)) = Inl (ValueError ''$100.00 '')"
  by (simp add: transform_def seq_def read_col_def lift_def state_with_def dollar_frame_def
      get_column_def py_float_examples)

subsection \<open>The claims about single functions\<close>

text \<open>
  C2, as stated: for the rows \<open>(Bank A, $100.00 )\<close> and \<open>(Bank B, 50)\<close> the transform stage
  succeeds. It does not: \<^verbatim>\<open>astype(float)\<close> raises on the dollar sign, with or without
  the surrounding whitespace.
\<close>

theorem transform_dollar_counterexample:
  "fst (transform example_env 0 csv_path (state_with dollar_frame)) = Inl (ValueError ''$100.00 '')
   \<and> py_float (strip ''$100.00 '') = None"
  by (simp add: transform_dollar_frame)
    (simp add: py_float_def strip_def py_isspace_def take_sign_def to_lower_def split_at_def
      parse_mantissa_def digitpart_def is_digit_def)

text \<open>
  C2, amended: for the rows \<open>(Bank A, 100.00 )\<close> and \<open>(Bank B, 50)\<close> and the rates
  GBP 0.8, EUR 0.93, INR 83 the transform stage succeeds, and the frame then holds
  Bank A with 100, 80, 93, 8300 and Bank B with 50, 40, 46.5, 4150.
\<close>

theorem transform_scenario:
  "transform example_env 0 csv_path (state_with raw_frame) = (Inr 0, state_with enriched_frame)
   \<and> heap (state_with raw_frame) 0 =
       [(''Name'', [Str ''Bank A'', Str ''Bank B'']), (''MC_USD_Billion'', [Str ''100.00 '', Str ''50''])]
   \<and> exchange_rate_csv example_env = Some [(''EUR'', 93 / 100), (''GBP'', 8 / 10), (''INR'', 83)]
   \<and> df_columns (heap (state_with enriched_frame) 0) =
       [''Name'', ''MC_USD_Billion'', ''MC_GBP_Billion'', ''MC_EUR_Billion'', ''MC_INR_Billion'']
   \<and> df_rows (heap (state_with enriched_frame) 0) =
       [[Str ''Bank A'', Float (Fin 100), Float (Fin 80), Float (Fin 93), Float (Fin 8300)],
        [Str ''Bank B'', Float (Fin 50), Float (Fin 40), Float (Fin (93 / 2)), Float (Fin 4150)]]"
proof (intro conjI)
  show "transform example_env 0 csv_path (state_with raw_frame) = (Inr 0, state_with enriched_frame)"
    by (rule transform_raw_frame)
  show "heap (state_with raw_frame) 0 =
      [(''Name'', [Str ''Bank A'', Str ''Bank B'']), (''MC_USD_Billion'', [Str ''100.00 '', Str ''50''])]"
    by (simp add: state_with_def raw_frame_def)
  show "exchange_rate_csv example_env = Some [(''EUR'', 93 / 100), (''GBP'', 8 / 10), (''INR'', 83)]"
    by (simp add: example_env_def example_rates_def)
  show "df_columns (heap (state_with enriched_frame) 0) =
      [''Name'', ''MC_USD_Billion'', ''MC_GBP_Billion'', ''MC_EUR_Billion'', ''MC_INR_Billion'']"
    by (simp add: state_with_def enriched_frame_def df_columns_def)
  show "df_rows (heap (state_with enriched_frame) 0) =
      [[Str ''Bank A'', Float (Fin 100), Float (Fin 80), Float (Fin 93), Float (Fin 8300)],
       [Str ''Bank B'', Float (Fin 50), Float (Fin 40), Float (Fin (93 / 2)), Float (Fin 4150)]]"
    by (simp add: state_with_def enriched_frame_def df_rows_def)
qed

text \<open>
  C4: whatever table the database holds under the name, a write that succeeds leaves
  under that name exactly the columns and rows of the frame, and leaves every other
  table as it was.
\<close>

theorem load_to_db_replaces:
  assumes "to_sql_fault env = None" and "database s name = Some old"
  shows "fst (load_to_db env df name s) = Inr ()
       \<and> database (snd (load_to_db env df name s)) name =
           Some \<lparr>tbl_columns = df_columns (heap s df), tbl_rows = df_rows (heap s df)\<rparr>
       \<and> (\<forall>other. other \<noteq> name \<longrightarrow> database (snd (load_to_db env df name s)) other = database s other)"
  using assms by (simp add: load_to_db_def)

theorem load_to_db_replaces_witness:
  "to_sql_fault example_env = None
   \<and> database loaded_state table_name = Some old_table
   \<and> length (tbl_rows old_table) = 3
   \<and> fst (load_to_db example_env 0 table_name loaded_state) = Inr ()
   \<and> database (snd (load_to_db example_env 0 table_name loaded_state)) table_name =
       Some \<lparr>tbl_columns = [''Name'', ''MC_USD_Billion'', ''MC_GBP_Billion'', ''MC_EUR_Billion'', ''MC_INR_Billion''],
             tbl_rows =
               [[Str ''Bank A'', Float (Fin 100), Float (Fin 80), Float (Fin 93), Float (Fin 8300)],
                [Str ''Bank B'', Float (Fin 50), Float (Fin 40), Float (Fin (93 / 2)), Float (Fin 4150)]]\<rparr>"
proof -
  have f: "to_sql_fault example_env = None"
    by (simp add: example_env_def)
  have d: "database loaded_state table_name = Some old_table"
    by (simp add: loaded_state_def table_name_def)
  have h: "heap loaded_state 0 = enriched_frame"
    by (simp add: loaded_state_def state_with_def)
  show ?thesis
    using load_to_db_replaces [OF f d, of 0] f d
    by (simp add: h enriched_frame_def df_columns_def df_rows_def old_table_def)
qed

text \<open>
  C9, as stated: the query entry point returns the tabular result to its caller. It
  returns \<^verbatim>\<open>None\<close>; the result is printed only.
\<close>

theorem run_query_counterexample:
  "read_sql example_env ''SELECT * FROM Largest_banks'' (database loaded_state) = Inr old_table
   \<and> fst (run_query example_env ''SELECT * FROM Largest_banks'' loaded_state) = Inr ReturnsNone
   \<and> fst (run_query example_env ''SELECT * FROM Largest_banks'' loaded_state) \<noteq> Inr (ReturnsFrame old_table)"
  by (simp add: run_query_eq example_env_def loaded_state_def)

text \<open>
  C9, amended: when the engine answers a query with a table, the entry point prints
  the statement and then the table, and returns \<^verbatim>\<open>None\<close>.
\<close>

theorem run_query_prints:
  assumes "read_sql env query_statement (database s) = Inr t"
  shows "run_query env query_statement s =
           (Inr ReturnsNone, s\<lparr>stdout := stdout s @ [Text query_statement, Frame t]\<rparr>)"
  using assms by (simp add: run_query_eq)

theorem run_query_prints_witness:
  "read_sql example_env ''SELECT Name from Largest_banks LIMIT 5'' (database loaded_state) = Inr old_table
   \<and> run_query example_env ''SELECT Name from Largest_banks LIMIT 5'' loaded_state =
       (Inr ReturnsNone,
        loaded_state\<lparr>stdout := stdout loaded_state
           @ [Text ''SELECT Name from Largest_banks LIMIT 5'', Frame old_table]\<rparr>)"
proof -
  have r: "read_sql example_env ''SELECT Name from Largest_banks LIMIT 5'' (database loaded_state)
             = Inr old_table"
    by (simp add: example_env_def loaded_state_def)
  from run_query_prints [OF r] r show ?thesis by simp
qed

text \<open>
  C10: a transform that succeeds returns the reference it was given and makes no new
  object; the object behind that reference now has the coerced market-cap column in
  place of the one it had, and the three currency columns; every other object is
  untouched.
\<close>

theorem transform_in_place:
  assumes "transform env df path s = (Inr r, s')"
  shows "r = df \<and> next_ref s' = next_ref s
       \<and> (\<forall>q. q \<noteq> df \<longrightarrow> heap s' q = heap s q)
       \<and> (\<exists>col fs. get_column (heap s df) ''MC_USD_Billion'' = Inr col
             \<and> astype_float col = Inr (map Float fs)
             \<and> get_column (heap s' df) ''MC_USD_Billion'' = Inr (map Float fs))
       \<and> {''MC_GBP_Billion'', ''MC_EUR_Billion'', ''MC_INR_Billion''} \<subseteq> set (df_columns (heap s' df))"
proof -
  from transform_Inr [OF assms] obtain col fs exr gbp eur inr where
    col: "get_column (heap s df) ''MC_USD_Billion'' = Inr col"
    and usd: "astype_float col = Inr (map Float fs)"
    and r: "r = df"
    and s': "s' = s\<lparr>heap := (heap s)(df :=
                  set_column (set_column (set_column (set_column (heap s df)
                    ''MC_USD_Billion'' (map Float fs)) ''MC_GBP_Billion'' gbp)
                    ''MC_EUR_Billion'' eur) ''MC_INR_Billion'' inr)\<rparr>"
    by blast
  have new: "get_column (heap s' df) ''MC_USD_Billion'' = Inr (map Float fs)"
    by (simp add: s' get_set_column_same get_set_column_other)
  have cols: "{''MC_GBP_Billion'', ''MC_EUR_Billion'', ''MC_INR_Billion''} \<subseteq> set (df_columns (heap s' df))"
    by (simp add: s' df_columns_def set_column_def dom_update)
  from r s' col usd new cols show ?thesis by auto
qed

theorem transform_in_place_witness:
  "transform example_env 0 csv_path (state_with raw_frame) = (Inr 0, state_with enriched_frame)
   \<and> next_ref (state_with enriched_frame) = next_ref (state_with raw_frame)
   \<and> get_column (heap (state_with raw_frame) 0) ''MC_USD_Billion'' = Inr [Str ''100.00 '', Str ''50'']
   \<and> get_column (heap (state_with enriched_frame) 0) ''MC_USD_Billion'' = Inr [Float (Fin 100), Float (Fin 50)]
   \<and> heap (state_with enriched_frame) 1 = heap (state_with raw_frame) 1
   \<and> {''MC_GBP_Billion'', ''MC_EUR_Billion'', ''MC_INR_Billion''}
       \<subseteq> set (df_columns (heap (state_with enriched_frame) 0))"
proof -
  have t: "transform example_env 0 csv_path (state_with raw_frame) = (Inr 0, state_with enriched_frame)"
    by (rule transform_raw_frame)
  from transform_in_place [OF t] t show ?thesis
    by (simp add: state_with_def raw_frame_def enriched_frame_def get_column_def df_columns_def)
qed

subsection \<open>Rounding, conversion and the rows of a table\<close>



lemma extract_rows_ok:
  assumes "\<forall>col\<in>set rows. 1 < length col \<longrightarrow> 3 \<le> length col \<and> 2 \<le> length (td_links (col ! 1))"
  shows "extract_rows rows [(''Name'', ns), (''MC_USD_Billion'', ms)] =
           Inr [(''Name'', ns @ map (\<lambda>col. case td_links (col ! 1) ! 1 of None \<Rightarrow> PyNone | Some t \<Rightarrow> Str t)
                               (filter (\<lambda>col. 1 < length col) rows)),
                (''MC_USD_Billion'', ms @ map (\<lambda>col. Str (strip (td_text (col ! 2))))
                               (filter (\<lambda>col. 1 < length col) rows))]"
  using assms
proof (induction rows arbitrary: ns ms)
  case Nil
  then show ?case by simp
next
  case (Cons col rows)
  then show ?case
    by (auto simp: concat_row_def Let_def)
qed




lemma ex_page: "example_page = [example_table]"
  by (simp add: example_page_def)


subsection \<open>The claims about transform and extract\<close>






subsection \<open>The script, stage by stage\<close>

lemma take_milestones:
  "take (Suc 0) milestones = [milestones ! 0]"
  "take 2 milestones = [milestones ! 0, milestones ! 1]"
  "take 3 milestones = [milestones ! 0, milestones ! 1, milestones ! 2]"
  "take 4 milestones = [milestones ! 0, milestones ! 1, milestones ! 2, milestones ! 3]"
  "take 5 milestones = [milestones ! 0, milestones ! 1, milestones ! 2, milestones ! 3, milestones ! 4]"
  "take 6 milestones = [milestones ! 0, milestones ! 1, milestones ! 2, milestones ! 3, milestones ! 4,
     milestones ! 5]"
  by (simp_all add: milestones_def)

lemma run_Inl_fields:
  assumes "run env s = (Inl e, s')"
  shows "let k = length (code_log s') - length (code_log s) in
           1 \<le> k \<and> k \<le> 6 \<and> code_log s' = code_log s @ take k milestones \<and>
           (k = 1 \<longrightarrow> extract_df (web env) url table_attribs = Inl e) \<and>
           (2 \<le> k \<longrightarrow> (\<exists>frame. extract_df (web env) url table_attribs = Inr frame)) \<and>
           (k \<le> 2 \<longrightarrow> files s' = files s) \<and>
           (k = 3 \<longrightarrow> (\<exists>left. to_csv_fault env = Some (e, left))) \<and>
           (k \<le> 4 \<longrightarrow> connection_open s' = connection_open s \<and> database s' = database s) \<and>
           (k = 4 \<longrightarrow> connect_fault env = Some e) \<and>
           (5 \<le> k \<longrightarrow> connection_open s') \<and>
           (k = 5 \<longrightarrow> (\<exists>left. to_sql_fault env = Some (e, left))) \<and>
           (k \<le> 5 \<longrightarrow> stdout s' = stdout s)"
  using assms
  apply (simp add: run_def seq_def log_progress_def lift_def new_object_def load_to_csv_def
      connect_def load_to_db_def close_def run_query_eq take_milestones Let_def
      split: sum.splits prod.splits option.splits)
  apply (safe dest!: transform_frame)
  apply (simp_all add: take_milestones)
  done

lemma transform_Inr_frame:
  assumes "transform env df path s = (Inr r, s')"
  shows "r = df \<and> (\<exists>h. s' = s\<lparr>heap := h\<rparr>)"
  using transform_Inr [OF assms] transform_frame [OF assms] by blast

lemma run_Inr_fields:
  assumes "run env s = (Inr u, s')"
  shows "files s' output_path =
           Some \<lparr>csv_header = df_columns (heap s' (next_ref s)),
                 csv_rows = enumerate 0 (df_rows (heap s' (next_ref s)))\<rparr>
       \<and> database s' table_name =
           Some \<lparr>tbl_columns = df_columns (heap s' (next_ref s)),
                 tbl_rows = df_rows (heap s' (next_ref s))\<rparr>
       \<and> \<not> connection_open s'
       \<and> code_log s' = code_log s @ milestones
       \<and> to_csv_fault env = None \<and> connect_fault env = None \<and> to_sql_fault env = None"
  using assms
  apply (simp add: run_def seq_def log_progress_def lift_def new_object_def load_to_csv_def
      connect_def load_to_db_def close_def run_query_eq
      split: sum.splits prod.splits option.splits)
  apply (safe dest!: transform_Inr_frame)
  apply (simp_all add: milestones_def)
  done

lemma seq_Inr_step: "m s = (Inr x, s1) \<Longrightarrow> seq m f s = f x s1"
  by (simp add: seq_def)

lemma seq_Inl_step: "m s = (Inl e, s1) \<Longrightarrow> seq m f s = (Inl e, s1)"
  by (simp add: seq_def)

lemma run_missing_rate:
  assumes ex: "extract_df (web env) url table_attribs = Inr frame"
    and col: "get_column frame ''MC_USD_Billion'' = Inr col"
    and usd: "astype_float col = Inr usd"
    and ne: "col \<noteq> []"
    and exr: "exchange_rate_csv env = Some exr"
    and miss: "to_dict exr ''GBP'' = None \<or> to_dict exr ''EUR'' = None \<or> to_dict exr ''INR'' = None"
  shows "\<exists>c h. c \<in> {''GBP'', ''EUR'', ''INR''} \<and> to_dict exr c = None \<and>
           run env s = (Inl (KeyError c),
             s\<lparr>code_log := code_log s @ [milestones ! 0, milestones ! 1],
               next_ref := Suc (next_ref s), heap := h\<rparr>)"
proof -
  define sA where "sA = s\<lparr>code_log := code_log s @ [milestones ! 0]\<rparr>"
  define sC where "sC = sA\<lparr>heap := (heap sA)(next_ref sA := frame), next_ref := Suc (next_ref sA)\<rparr>"
  define sD where "sD = sC\<lparr>code_log := code_log sC @ [milestones ! 1]\<rparr>"
  have a: "log_progress (milestones ! 0) s = (Inr (), sA)"
    by (simp add: log_progress_def sA_def)
  have b: "lift (extract_df (web env) url table_attribs) sA = (Inr frame, sA)"
    by (simp add: lift_def ex)
  have c: "new_object frame sA = (Inr (next_ref s), sC)"
    by (simp add: new_object_def sC_def sA_def)
  have d: "log_progress (milestones ! 1) sC = (Inr (), sD)"
    by (simp add: log_progress_def sD_def)
  have hp: "get_column (heap sD (next_ref s)) ''MC_USD_Billion'' = Inr col"
    by (simp add: sD_def sC_def sA_def col)
  from astype_float_Float [OF usd] obtain fs where fs: "usd = map Float fs" "length fs = length col"
    by blast
  with ne have ne': "fs \<noteq> []" by auto
  from transform_missing_rate [OF hp usd [unfolded fs(1)] ne' exr miss, of csv_path]
  obtain c h where cc: "c \<in> {''GBP'', ''EUR'', ''INR''}" and none: "to_dict exr c = None"
    and t: "transform env (next_ref s) csv_path sD = (Inl (KeyError c), sD\<lparr>heap := h\<rparr>)"
    by blast
  have "run env s = (Inl (KeyError c), sD\<lparr>heap := h\<rparr>)"
    unfolding run_def
    by (simp only: seq_Inr_step [of "log_progress (milestones ! 0)" s, OF a]
        seq_Inr_step [of "lift (extract_df (web env) url table_attribs)" sA, OF b]
        seq_Inr_step [of "new_object frame" sA, OF c]
        seq_Inr_step [of "log_progress (milestones ! 1)" sC, OF d]
        seq_Inl_step [of "transform env (next_ref s) csv_path" sD, OF t])
  moreover have "sD\<lparr>heap := h\<rparr> = s\<lparr>code_log := code_log s @ [milestones ! 0, milestones ! 1],
               next_ref := Suc (next_ref s), heap := h\<rparr>"
    by (simp add: sD_def sC_def sA_def)
  ultimately show ?thesis using cc none by metis
qed

subsection \<open>The example runs, evaluated\<close>

lemma example_env_simps:
  "web example_env = (\<lambda>u. Inr example_page)"
  "exchange_rate_csv example_env = Some example_rates"
  "to_csv_fault example_env = None"
  "connect_fault example_env = None"
  "to_sql_fault example_env = None"
  "read_sql example_env = (\<lambda>q db. case db ''Largest_banks'' of None \<Rightarrow> Inl DatabaseError | Some t \<Rightarrow> Inr t)"
  by (simp_all add: example_env_def)

lemma extract_example: "extract_df (\<lambda>u. Inr example_page) url table_attribs = Inr extracted_frame"
proof -
  have h: "\<forall>col\<in>set (drop 1 example_table). 1 < length col \<longrightarrow> 3 \<le> length col \<and> 2 \<le> length (td_links (col ! 1))"
    by (simp add: example_table_def)
  from extract_rows_ok [OF h, of "[]" "[]"] show ?thesis
    by (simp add: extract_df_def table_attribs_def ex_page example_table_def strip_def
      py_isspace_def extracted_frame_def)
qed

lemma extract_header_only:
  "extract_df (\<lambda>u. Inr [[[]]]) url table_attribs = Inr [(''Name'', []), (''MC_USD_Billion'', [])]"
  by (simp add: extract_df_def table_attribs_def)

lemma transform_extracted_at:
  assumes "heap s r = extracted_frame" and "exchange_rate_csv env = Some example_rates"
  shows "transform env r path s = (Inr r, s\<lparr>heap := (heap s)(r := enriched_frame)\<rparr>)"
proof -
  have col: "get_column (heap s r) ''MC_USD_Billion'' = Inr [Str ''100.00'', Str ''50'']"
    by (simp add: assms extracted_frame_def get_column_def)
  have p: "py_float ''100.00'' = Some (Fin 100)"
    by (simp add: py_float_def strip_def py_isspace_def take_sign_def to_lower_def split_at_def
      parse_mantissa_def parse_exponent_def digitpart_def is_digit_def digits_value_def scale10_def)
  have usd: "astype_float [Str ''100.00'', Str ''50''] = Inr (map Float [Fin 100, Fin 50])"
    by (simp add: py_float_examples p)
  have g: "to_dict example_rates ''GBP'' = Some (8 / 10)"
    and e: "to_dict example_rates ''EUR'' = Some (93 / 100)"
    and n: "to_dict example_rates ''INR'' = Some 83"
    by (simp_all add: to_dict_def example_rates_def)
  show ?thesis
    unfolding transform_ok [OF col usd assms(2) g e n]
    by (simp add: rint_def assms(1) extracted_frame_def enriched_frame_def set_column_def)
qed

lemma transform_empty:
  assumes "heap s r = [(''Name'', []), (''MC_USD_Billion'', [])]" and "exchange_rate_csv env = Some exr"
  shows "transform env r path s = (Inr r, s\<lparr>heap := (heap s)(r := empty_enriched)\<rparr>)"
  by (simp add: transform_def seq_def read_col_def lift_def write_col_def read_csv_def assms
      get_column_def set_column_def empty_enriched_def)

lemma run_example:
  "run example_env initial_state =
     (Inr (),
      \<lparr>heap = (\<lambda>_. [])(0 := enriched_frame), next_ref = 1, code_log = milestones,
       files = (\<lambda>_. None)(output_path :=
         Some \<lparr>csv_header = df_columns enriched_frame, csv_rows = enumerate 0 (df_rows enriched_frame)\<rparr>),
       database = (\<lambda>_. None)(table_name :=
         Some \<lparr>tbl_columns = df_columns enriched_frame, tbl_rows = df_rows enriched_frame\<rparr>),
       connection_open = False,
       stdout =
         [Text ''SELECT * FROM Largest_banks'',
          Frame \<lparr>tbl_columns = df_columns enriched_frame, tbl_rows = df_rows enriched_frame\<rparr>,
          Text ''SELECT AVG(MC_GBP_Billion) FROM Largest_banks'',
          Frame \<lparr>tbl_columns = df_columns enriched_frame, tbl_rows = df_rows enriched_frame\<rparr>,
          Text ''SELECT Name from Largest_banks LIMIT 5'',
          Frame \<lparr>tbl_columns = df_columns enriched_frame, tbl_rows = df_rows enriched_frame\<rparr>]\<rparr>)"
  by (simp add: run_def seq_def log_progress_def lift_def new_object_def load_to_csv_def
      connect_def load_to_db_def close_def run_query_eq example_env_simps extract_example
      transform_extracted_at initial_state_def table_name_def milestones_def)

lemma run_broken:
  "run broken_env initial_state =
     (Inl DatabaseError,
      \<lparr>heap = (\<lambda>_. [])(0 := enriched_frame), next_ref = 1, code_log = take 6 milestones,
       files = (\<lambda>_. None)(output_path :=
         Some \<lparr>csv_header = df_columns enriched_frame, csv_rows = enumerate 0 (df_rows enriched_frame)\<rparr>),
       database = (\<lambda>_. None)(table_name :=
         Some \<lparr>tbl_columns = df_columns enriched_frame, tbl_rows = df_rows enriched_frame\<rparr>),
       connection_open = True,
       stdout = [Text ''SELECT * FROM Largest_banks'']\<rparr>)"
  by (simp add: run_def seq_def log_progress_def lift_def new_object_def load_to_csv_def
      connect_def load_to_db_def close_def run_query_eq example_env_simps extract_example
      transform_extracted_at initial_state_def table_name_def milestones_def broken_env_def)

lemma run_header_only:
  "run header_only_env initial_state =
     (Inr (),
      \<lparr>heap = (\<lambda>_. [])(0 := empty_enriched), next_ref = 1, code_log = milestones,
       files = (\<lambda>_. None)(output_path :=
         Some \<lparr>csv_header = df_columns empty_enriched, csv_rows = []\<rparr>),
       database = (\<lambda>_. None)(table_name :=
         Some \<lparr>tbl_columns = df_columns empty_enriched, tbl_rows = []\<rparr>),
       connection_open = False,
       stdout =
         [Text ''SELECT * FROM Largest_banks'',
          Frame \<lparr>tbl_columns = df_columns empty_enriched, tbl_rows = []\<rparr>,
          Text ''SELECT AVG(MC_GBP_Billion) FROM Largest_banks'',
          Frame \<lparr>tbl_columns = df_columns empty_enriched, tbl_rows = []\<rparr>,
          Text ''SELECT Name from Largest_banks LIMIT 5'',
          Frame \<lparr>tbl_columns = df_columns empty_enriched, tbl_rows = []\<rparr>]\<rparr>)"
proof -
  have r: "df_rows empty_enriched = []"
    by (simp add: df_rows_def empty_enriched_def)
  show ?thesis
    by (simp add: run_def seq_def log_progress_def lift_def new_object_def load_to_csv_def
      connect_def load_to_db_def close_def run_query_eq example_env_simps extract_header_only
      transform_empty [where exr = "[(''EUR'', 93 / 100), (''GBP'', 8 / 10)]"] r
      initial_state_def table_name_def milestones_def header_only_env_def no_inr_env_def)
qed

subsection \<open>The claims about a whole run\<close>

text \<open>
  C3: after a run that completes, the CSV file and the database table have the same
  columns and, the index of the CSV file apart, the same rows in the same order.
\<close>

theorem sinks_agree:
  assumes "run env s = (Inr u, s')"
  shows "\<exists>c t. files s' output_path = Some c \<and> database s' table_name = Some t
           \<and> csv_header c = tbl_columns t \<and> map snd (csv_rows c) = tbl_rows t"
  using run_Inr_fields [OF assms] by (simp add: map_snd_enumerate)

theorem sinks_agree_witness:
  "fst (run example_env initial_state) = Inr ()
   \<and> files (snd (run example_env initial_state)) output_path =
       Some \<lparr>csv_header = [''Name'', ''MC_USD_Billion'', ''MC_GBP_Billion'', ''MC_EUR_Billion'', ''MC_INR_Billion''],
             csv_rows =
               [(0, [Str ''Bank A'', Float (Fin 100), Float (Fin 80), Float (Fin 93), Float (Fin 8300)]),
                (1, [Str ''Bank B'', Float (Fin 50), Float (Fin 40), Float (Fin (93 / 2)), Float (Fin 4150)])]\<rparr>
   \<and> database (snd (run example_env initial_state)) table_name =
       Some \<lparr>tbl_columns = [''Name'', ''MC_USD_Billion'', ''MC_GBP_Billion'', ''MC_EUR_Billion'', ''MC_INR_Billion''],
             tbl_rows =
               [[Str ''Bank A'', Float (Fin 100), Float (Fin 80), Float (Fin 93), Float (Fin 8300)],
                [Str ''Bank B'', Float (Fin 50), Float (Fin 40), Float (Fin (93 / 2)), Float (Fin 4150)]]\<rparr>"
proof -
  have r: "run example_env initial_state = (Inr (), snd (run example_env initial_state))"
    by (simp add: run_example)
  have c: "df_columns enriched_frame =
      [''Name'', ''MC_USD_Billion'', ''MC_GBP_Billion'', ''MC_EUR_Billion'', ''MC_INR_Billion'']"
    by (simp add: enriched_frame_def df_columns_def)
  have d: "df_rows enriched_frame =
      [[Str ''Bank A'', Float (Fin 100), Float (Fin 80), Float (Fin 93), Float (Fin 8300)],
       [Str ''Bank B'', Float (Fin 50), Float (Fin 40), Float (Fin (93 / 2)), Float (Fin 4150)]]"
    by (simp add: enriched_frame_def df_rows_def)
  have "fst (run example_env initial_state) = Inr ()
   \<and> files (snd (run example_env initial_state)) output_path =
       Some \<lparr>csv_header = df_columns enriched_frame, csv_rows = enumerate 0 (df_rows enriched_frame)\<rparr>
   \<and> database (snd (run example_env initial_state)) table_name =
       Some \<lparr>tbl_columns = df_columns enriched_frame, tbl_rows = df_rows enriched_frame\<rparr>"
    by (simp only: run_example fst_conv snd_conv) (simp add: table_name_def output_path_def)
  with sinks_agree [OF r] show ?thesis
    by (simp add: c d)
qed

text \<open>
  C6, as stated: when the rate file lacks a required currency, the transform stage
  fails and no artifact is written. The rate is looked up once for each record, so
  with no record nothing is looked up: for a table with a header row only and a rate
  file without INR the run completes and writes an empty CSV file and an empty table.
\<close>

theorem missing_rate_counterexample:
  "exchange_rate_csv header_only_env = Some [(''EUR'', 93 / 100), (''GBP'', 8 / 10)]
   \<and> to_dict [(''EUR'', 93 / 100), (''GBP'', 8 / 10)] ''INR'' = None
   \<and> fst (run header_only_env initial_state) = Inr ()
   \<and> files initial_state output_path = None
   \<and> files (snd (run header_only_env initial_state)) output_path =
       Some \<lparr>csv_header = [''Name'', ''MC_USD_Billion'', ''MC_GBP_Billion'', ''MC_EUR_Billion'', ''MC_INR_Billion''],
             csv_rows = []\<rparr>
   \<and> database (snd (run header_only_env initial_state)) table_name =
       Some \<lparr>tbl_columns = [''Name'', ''MC_USD_Billion'', ''MC_GBP_Billion'', ''MC_EUR_Billion'', ''MC_INR_Billion''],
             tbl_rows = []\<rparr>"
proof -
  have e: "exchange_rate_csv header_only_env = Some [(''EUR'', 93 / 100), (''GBP'', 8 / 10)]"
    by (simp add: header_only_env_def no_inr_env_def)
  have d: "to_dict [(''EUR'', 93 / 100), (''GBP'', 8 / 10)] ''INR'' = None"
    by (simp add: to_dict_def)
  have i: "files initial_state output_path = None"
    by (simp add: initial_state_def)
  have c: "df_columns empty_enriched =
      [''Name'', ''MC_USD_Billion'', ''MC_GBP_Billion'', ''MC_EUR_Billion'', ''MC_INR_Billion'']"
    by (simp add: empty_enriched_def df_columns_def)
  show ?thesis
    by (simp only: run_header_only fst_conv snd_conv e d i c) simp
qed

text \<open>
  C6, amended: when the extracted table has at least one record, its market caps are
  all numeric and the rate file lacks GBP, EUR or INR, the run ends in the transform
  stage with a key error for a missing currency, and neither the CSV files nor the
  database tables are changed; the connection is not opened.
\<close>

theorem missing_rate_aborts:
  assumes "extract_df (web env) url table_attribs = Inr frame"
    and "get_column frame ''MC_USD_Billion'' = Inr col"
    and "astype_float col = Inr usd"
    and "col \<noteq> []"
    and "exchange_rate_csv env = Some exr"
    and "to_dict exr ''GBP'' = None \<or> to_dict exr ''EUR'' = None \<or> to_dict exr ''INR'' = None"
  shows "\<exists>c\<in>{''GBP'', ''EUR'', ''INR''}. to_dict exr c = None
           \<and> fst (run env s) = Inl (KeyError c)
           \<and> files (snd (run env s)) = files s
           \<and> database (snd (run env s)) = database s
           \<and> connection_open (snd (run env s)) = connection_open s
           \<and> code_log (snd (run env s)) = code_log s @ take 2 milestones"
proof -
  from run_missing_rate [OF assms, of s] obtain c h where
    c: "c \<in> {''GBP'', ''EUR'', ''INR''}" and n: "to_dict exr c = None"
    and r: "run env s = (Inl (KeyError c),
             s\<lparr>code_log := code_log s @ [milestones ! 0, milestones ! 1],
               next_ref := Suc (next_ref s), heap := h\<rparr>)"
    by blast
  have "fst (run env s) = Inl (KeyError c) \<and> files (snd (run env s)) = files s
           \<and> database (snd (run env s)) = database s
           \<and> connection_open (snd (run env s)) = connection_open s
           \<and> code_log (snd (run env s)) = code_log s @ take 2 milestones"
    by (simp add: r take_milestones)
  with c n show ?thesis by blast
qed

theorem missing_rate_aborts_witness:
  "extract_df (web no_inr_env) url table_attribs = Inr extracted_frame
   \<and> get_column extracted_frame ''MC_USD_Billion'' = Inr [Str ''100.00'', Str ''50'']
   \<and> astype_float [Str ''100.00'', Str ''50''] = Inr [Float (Fin 100), Float (Fin 50)]
   \<and> exchange_rate_csv no_inr_env = Some [(''EUR'', 93 / 100), (''GBP'', 8 / 10)]
   \<and> to_dict [(''EUR'', 93 / 100), (''GBP'', 8 / 10)] ''INR'' = None
   \<and> fst (run no_inr_env initial_state) = Inl (KeyError ''INR'')
   \<and> files (snd (run no_inr_env initial_state)) = files initial_state
   \<and> database (snd (run no_inr_env initial_state)) = database initial_state"
proof -
  have a: "extract_df (web no_inr_env) url table_attribs = Inr extracted_frame"
    by (simp add: no_inr_env_def example_env_simps extract_example)
  have b: "get_column extracted_frame ''MC_USD_Billion'' = Inr [Str ''100.00'', Str ''50'']"
    by (simp add: extracted_frame_def get_column_def)
  have p: "py_float ''100.00'' = Some (Fin 100)"
    by (simp add: py_float_def strip_def py_isspace_def take_sign_def to_lower_def split_at_def
      parse_mantissa_def parse_exponent_def digitpart_def is_digit_def digits_value_def scale10_def)
  have c: "astype_float [Str ''100.00'', Str ''50''] = Inr [Float (Fin 100), Float (Fin 50)]"
    by (simp add: p py_float_examples)
  have d: "[Str ''100.00'', Str ''50''] \<noteq> []"
    by simp
  have e: "exchange_rate_csv no_inr_env = Some [(''EUR'', 93 / 100), (''GBP'', 8 / 10)]"
    by (simp add: no_inr_env_def)
  have g: "to_dict [(''EUR'', 93 / 100), (''GBP'', 8 / 10)] ''GBP'' = Some (8 / 10)"
    "to_dict [(''EUR'', 93 / 100), (''GBP'', 8 / 10)] ''EUR'' = Some (93 / 100)"
    and f: "to_dict [(''EUR'', 93 / 100), (''GBP'', 8 / 10)] ''INR'' = None"
    by (simp_all add: to_dict_def)
  from f have f': "to_dict [(''EUR'', 93 / 100), (''GBP'', 8 / 10)] ''GBP'' = None
      \<or> to_dict [(''EUR'', 93 / 100), (''GBP'', 8 / 10)] ''EUR'' = None
      \<or> to_dict [(''EUR'', 93 / 100), (''GBP'', 8 / 10)] ''INR'' = None"
    by simp
  from missing_rate_aborts [OF a b c d e f', of initial_state] g
  have "fst (run no_inr_env initial_state) = Inl (KeyError ''INR'')
      \<and> files (snd (run no_inr_env initial_state)) = files initial_state
      \<and> database (snd (run no_inr_env initial_state)) = database initial_state"
    by auto
  with a b c e f show ?thesis by blast
qed



text \<open>
  C8, as stated: the connection is released on every exit path, also when a query
  fails. The script closes the connection in its last lines only: when the first
  query fails, the run ends with the connection open.
\<close>

theorem connection_counterexample:
  "read_sql broken_env ''SELECT * FROM Largest_banks'' (database (snd (run broken_env initial_state)))
     = Inl DatabaseError
   \<and> fst (run broken_env initial_state) = Inl DatabaseError
   \<and> connection_open (snd (run broken_env initial_state))"
proof -
  have q: "read_sql broken_env = (\<lambda>q db. Inl DatabaseError)"
    by (simp add: broken_env_def)
  show ?thesis
    by (simp only: run_broken fst_conv snd_conv q) simp
qed

text \<open>
  C8, amended: a run that completes has closed the connection; a run that fails
  before the connection is made leaves it as it was; a run that fails after the
  connection was made, in the database write or in a query, ends with the connection
  open.
\<close>

theorem connection_closed_on_completion:
  "(run env s = (Inr u, s') \<longrightarrow> \<not> connection_open s')
   \<and> (run env s = (Inl e, s') \<longrightarrow>
        (let k = length (code_log s') - length (code_log s) in
           (k \<le> 4 \<longrightarrow> connection_open s' = connection_open s) \<and> (5 \<le> k \<longrightarrow> connection_open s')))"
proof (intro conjI impI)
  assume "run env s = (Inr u, s')"
  from run_Inr_fields [OF this] show "\<not> connection_open s'" by simp
next
  assume "run env s = (Inl e, s')"
  from run_Inl_fields [OF this]
  show "let k = length (code_log s') - length (code_log s) in
           (k \<le> 4 \<longrightarrow> connection_open s' = connection_open s) \<and> (5 \<le> k \<longrightarrow> connection_open s')"
    by (simp add: Let_def)
qed

theorem connection_closed_on_completion_witness:
  "fst (run example_env initial_state) = Inr ()
   \<and> connection_open (snd (run example_env initial_state)) = False
   \<and> fst (run no_inr_env initial_state) = Inl (KeyError ''INR'')
   \<and> length (code_log (snd (run no_inr_env initial_state))) - length (code_log initial_state) = 2
   \<and> connection_open (snd (run no_inr_env initial_state)) = connection_open initial_state"
proof -
  have r: "run example_env initial_state = (Inr (), snd (run example_env initial_state))"
    by (simp add: run_example)
  note ok = connection_closed_on_completion
    [of example_env initial_state "()" "snd (run example_env initial_state)", THEN conjunct1, rule_format, OF r]
  have a: "extract_df (web no_inr_env) url table_attribs = Inr extracted_frame"
    by (simp add: no_inr_env_def example_env_simps extract_example)
  have b: "get_column extracted_frame ''MC_USD_Billion'' = Inr [Str ''100.00'', Str ''50'']"
    by (simp add: extracted_frame_def get_column_def)
  have p: "py_float ''100.00'' = Some (Fin 100)"
    by (simp add: py_float_def strip_def py_isspace_def take_sign_def to_lower_def split_at_def
      parse_mantissa_def parse_exponent_def digitpart_def is_digit_def digits_value_def scale10_def)
  have c: "astype_float [Str ''100.00'', Str ''50''] = Inr (map Float [Fin 100, Fin 50])"
    by (simp add: p py_float_examples)
  have e: "exchange_rate_csv no_inr_env = Some [(''EUR'', 93 / 100), (''GBP'', 8 / 10)]"
    by (simp add: no_inr_env_def)
  have f: "to_dict [(''EUR'', 93 / 100), (''GBP'', 8 / 10)] ''GBP'' = None
      \<or> to_dict [(''EUR'', 93 / 100), (''GBP'', 8 / 10)] ''EUR'' = None
      \<or> to_dict [(''EUR'', 93 / 100), (''GBP'', 8 / 10)] ''INR'' = None"
    by (simp add: to_dict_def)
  have g: "to_dict [(''EUR'', 93 / 100), (''GBP'', 8 / 10)] ''GBP'' = Some (8 / 10)"
    "to_dict [(''EUR'', 93 / 100), (''GBP'', 8 / 10)] ''EUR'' = Some (93 / 100)"
    by (simp_all add: to_dict_def)
  from run_missing_rate [OF a b c _ e f, of initial_state] g
  obtain h where q: "run no_inr_env initial_state = (Inl (KeyError ''INR''),
             initial_state\<lparr>code_log := code_log initial_state @ [milestones ! 0, milestones ! 1],
               next_ref := Suc (next_ref initial_state), heap := h\<rparr>)"
    by auto
  have q': "run no_inr_env initial_state = (Inl (KeyError ''INR''), snd (run no_inr_env initial_state))"
    by (simp add: q)
  note bad = connection_closed_on_completion
    [of no_inr_env initial_state _ _ "KeyError ''INR''", THEN conjunct2, rule_format, OF q']
  have r1: "fst (run example_env initial_state) = Inr ()"
    by (simp only: run_example fst_conv)
  have k: "length (code_log (snd (run no_inr_env initial_state))) - length (code_log initial_state) = 2"
    by (simp add: q)
  have f: "fst (run no_inr_env initial_state) = Inl (KeyError ''INR'')"
    by (simp add: q)
  from bad have b: "connection_open (snd (run no_inr_env initial_state)) = connection_open initial_state"
    by (simp add: Let_def k)
  from ok have a: "connection_open (snd (run example_env initial_state)) = False"
    by simp
  from r1 a f k b show ?thesis
    by (intro conjI)
qed

end
